theory Spec2Isabelle
  imports Main "HOL-Library.Sublist"
begin

section \<open>JavaScript values used by the components\<close>

text \<open>
  \<^verbatim>\<open>response.json()\<close> yields a JSON value. Numbers are IEEE doubles in JavaScript; the
  development keeps them abstract (type \<open>'n\<close>) and takes the two operations the
  components can apply to one as parameters: the comparison \<^verbatim>\<open>=== 0\<close> and the
  conversion to a string inside a template literal. An object is the list of its
  members in the order of the text; \<^verbatim>\<open>JSON.parse\<close> keeps the last of two equal keys.
\<close>

datatype 'n json =
    JNull
  | JBool bool
  | JNum 'n
  | JStr string
  | JArr "'n json list"
  | JObj "(string \<times> 'n json) list"

record 'n number_ops =
  num_is_zero :: "'n \<Rightarrow> bool"
  num_to_string :: "'n \<Rightarrow> string"

text \<open>Every exception the render path can raise is a \<^verbatim>\<open>TypeError\<close>.\<close>

datatype js_error = TypeError

definition own_property :: "(string \<times> 'n json) list \<Rightarrow> string \<Rightarrow> 'n json option" where
  "own_property kvs k = map_of (rev kvs) k"

text \<open>
  \<^verbatim>\<open>member.id\<close>, \<^verbatim>\<open>member.name\<close>, \<^verbatim>\<open>member.slug\<close>: reading a property of \<^verbatim>\<open>null\<close>
  throws; an object gives its own member or \<^verbatim>\<open>undefined\<close> (\<open>None\<close>); no built-in
  prototype defines one of these three names, so every other value gives
  \<^verbatim>\<open>undefined\<close>.
\<close>

fun get_field :: "'n json \<Rightarrow> string \<Rightarrow> js_error + 'n json option" where
  "get_field JNull k = Inl TypeError"
| "get_field (JObj kvs) k = Inr (own_property kvs k)"
| "get_field v k = Inr None"

text \<open>
  \<^verbatim>\<open>cast.length === 0\<close>: \<^verbatim>\<open>null.length\<close> throws, an array and a string have a length,
  an object has one only as a member of its own, and a number or a boolean has
  none (\<^verbatim>\<open>undefined === 0\<close> is false).
\<close>

fun length_is_zero :: "'n number_ops \<Rightarrow> 'n json \<Rightarrow> js_error + bool" where
  "length_is_zero ops JNull = Inl TypeError"
| "length_is_zero ops (JArr xs) = Inr (length xs = 0)"
| "length_is_zero ops (JStr s) = Inr (length s = 0)"
| "length_is_zero ops (JObj kvs) =
     Inr (case own_property kvs ''length'' of
            Some (JNum n) \<Rightarrow> num_is_zero ops n
          | _ \<Rightarrow> False)"
| "length_is_zero ops v = Inr False"

text \<open>
  The string a value contributes to a template literal (\<^verbatim>\<open>ToString\<close>). An array is
  joined with commas, \<^verbatim>\<open>null\<close> elements contributing nothing; an object prints as
  \<^verbatim>\<open>[object Object]\<close> unless a member of its own named \<^verbatim>\<open>toString\<close> hides the
  inherited method, and then the conversion throws.
\<close>

fun js_to_string :: "'n number_ops \<Rightarrow> 'n json \<Rightarrow> js_error + string"
  and js_join :: "'n number_ops \<Rightarrow> 'n json list \<Rightarrow> js_error + string" where
  "js_to_string ops JNull = Inr ''null''"
| "js_to_string ops (JBool b) = Inr (if b then ''true'' else ''false'')"
| "js_to_string ops (JNum n) = Inr (num_to_string ops n)"
| "js_to_string ops (JStr s) = Inr s"
| "js_to_string ops (JArr xs) = js_join ops xs"
| "js_to_string ops (JObj kvs) =
     (if own_property kvs ''toString'' = None then Inr ''[object Object]''
      else Inl TypeError)"
| "js_join ops [] = Inr []"
| "js_join ops [x] = (if x = JNull then Inr [] else js_to_string ops x)"
| "js_join ops (x # y # ys) =
     (case (if x = JNull then Inr [] else js_to_string ops x) of
        Inl e \<Rightarrow> Inl e
      | Inr a \<Rightarrow>
          (case js_join ops (y # ys) of
             Inl e \<Rightarrow> Inl e
           | Inr b \<Rightarrow> Inr (a @ '','' @ b)))"

definition template_value :: "'n number_ops \<Rightarrow> 'n json option \<Rightarrow> js_error + string" where
  "template_value ops v =
     (case v of None \<Rightarrow> Inr ''undefined'' | Some j \<Rightarrow> js_to_string ops j)"

text \<open>
  The key of an element. When React creates an element whose \<^verbatim>\<open>key\<close> is not
  \<^verbatim>\<open>undefined\<close> it makes the key a string with \<^verbatim>\<open>'' + key\<close>. For a value parsed from
  JSON the concatenation gives the string \<open>js_to_string\<close> gives, and throws where
  it throws. An \<^verbatim>\<open>undefined\<close> key leaves the element without a key.
\<close>

definition element_key :: "'n number_ops \<Rightarrow> 'n json option \<Rightarrow> js_error + string option" where
  "element_key ops v =
     (case v of
        None \<Rightarrow> Inr None
      | Some j \<Rightarrow> (case js_to_string ops j of Inl e \<Rightarrow> Inl e | Inr k \<Rightarrow> Inr (Some k)))"

text \<open>
  \<^verbatim>\<open>cast.map(f)\<close>: only an array has a callable \<^verbatim>\<open>map\<close>; the callback runs on the
  elements in order and the first exception ends the call.
\<close>

fun map_all :: "('a \<Rightarrow> js_error + 'b) \<Rightarrow> 'a list \<Rightarrow> js_error + 'b list" where
  "map_all f [] = Inr []"
| "map_all f (x # xs) =
     (case f x of
        Inl e \<Rightarrow> Inl e
      | Inr y \<Rightarrow> (case map_all f xs of Inl e \<Rightarrow> Inl e | Inr ys \<Rightarrow> Inr (y # ys)))"

fun js_map :: "('n json \<Rightarrow> js_error + 'b) \<Rightarrow> 'n json \<Rightarrow> js_error + 'b list" where
  "js_map f (JArr xs) = map_all f xs"
| "js_map f v = Inl TypeError"

text \<open>
  Decimal digits of a natural number: what a template literal prints for
  \<^verbatim>\<open>response.status\<close> and for the counter, both integers below \<open>10\<^sup>2\<^sup>1\<close>.
\<close>

definition digit_char :: "nat \<Rightarrow> char" where
  "digit_char d = ''0123456789'' ! (d mod 10)"

function string_of_nat :: "nat \<Rightarrow> string" where
  "string_of_nat n =
     (if n < 10 then [digit_char n]
      else string_of_nat (n div 10) @ [digit_char (n mod 10)])"
  by pat_completeness auto
termination
  by (relation "measure id") auto

declare string_of_nat.simps [simp del]

section \<open>Rendered elements\<close>

text \<open>
  What a component returns: JSX elements with their props and children. \<open>Empty\<close> is
  a child that renders nothing (\<^verbatim>\<open>false\<close>, \<^verbatim>\<open>null\<close>). A handler is the function an
  \<^verbatim>\<open>onClick\<close> prop holds.
\<close>

datatype handler = FetchCast | SetCount nat

datatype 'n prop_value =
    PStr string
  | PBool bool
  | PJs "'n json option"
  | PStyle "(string \<times> string) list"
  | PHandler handler

datatype 'n node =
    Empty
  | TextNode string
  | Elem string "(string \<times> 'n prop_value) list" "'n node list"

fun prop_of :: "'n node \<Rightarrow> string \<Rightarrow> 'n prop_value option" where
  "prop_of (Elem t ps cs) k = map_of ps k"
| "prop_of v k = None"

text \<open>The key of a created element: a string, or none.\<close>

definition key_prop :: "string option \<Rightarrow> 'n prop_value" where
  "key_prop k = (case k of None \<Rightarrow> PJs None | Some key \<Rightarrow> PStr key)"

fun children :: "'n node \<Rightarrow> 'n node list" where
  "children (Elem t ps cs) = cs"
| "children v = []"

fun text_content :: "'n node \<Rightarrow> string" where
  "text_content Empty = []"
| "text_content (TextNode s) = s"
| "text_content (Elem t ps cs) = concat (map text_content cs)"

text \<open>The elements with a given tag, the node itself included, in document order.\<close>

fun elements_named :: "string \<Rightarrow> 'n node \<Rightarrow> 'n node list" where
  "elements_named t Empty = []"
| "elements_named t (TextNode s) = []"
| "elements_named t (Elem u ps cs) =
     (if u = t then [Elem u ps cs] else []) @ concat (map (elements_named t) cs)"

text \<open>
  A click on an element runs the handler of its \<^verbatim>\<open>onClick\<close> prop, if it has one and
  the element is not disabled.
\<close>

definition click :: "'n node \<Rightarrow> handler list" where
  "click el =
     (case prop_of el ''onClick'' of
        Some (PHandler h) \<Rightarrow> (if prop_of el ''disabled'' = Some (PBool True) then [] else [h])
      | _ \<Rightarrow> [])"

text \<open>
  The nodes from the root down to the one a path of child indices leads to. A click
  on that node bubbles: the handlers run from the target up to the root.
\<close>

fun node_path :: "'n node \<Rightarrow> nat list \<Rightarrow> 'n node list" where
  "node_path n [] = [n]"
| "node_path n (i # path) =
     n # (if i < length (children n) then node_path (children n ! i) path else [])"

definition click_at :: "'n node \<Rightarrow> nat list \<Rightarrow> handler list" where
  "click_at root path = concat (map click (rev (node_path root path)))"

section \<open>ListCast\<close>

record 'n list_cast_state =
  cast :: "'n json"
  loading :: bool
  error :: "string option"

text \<open>
  The props the parent passes: \<^verbatim>\<open>onChoice={(info) => { setMemberInfo(info) }}\<close>, or
  nothing.
\<close>

datatype callback = SetMemberInfo

record list_cast_props =
  onChoice :: "callback option"

text \<open>\<^verbatim>\<open>useState([])\<close>, \<^verbatim>\<open>useState(true)\<close>, \<^verbatim>\<open>useState(null)\<close>.\<close>

definition initial_state :: "'n list_cast_state" where
  "initial_state = \<lparr>cast = JArr [], loading = True, error = None\<rparr>"

subsection \<open>fetchCast\<close>

text \<open>
  What the environment answers to \<^verbatim>\<open>fetch("cast.json")\<close> and to \<^verbatim>\<open>response.json()\<close>:
  either promise may reject with an error carrying a message.
\<close>

datatype 'n json_result = JsonParsed "'n json" | JsonRejected string

record 'n response =
  ok :: bool
  status :: nat
  json_body :: "'n json_result"

datatype 'n fetch_result = FetchRejected string | FetchResolved "'n response"

text \<open>The two state updates before the first \<^verbatim>\<open>await\<close>.\<close>

definition fetchCast_begin :: "'n list_cast_state \<Rightarrow> 'n list_cast_state" where
  "fetchCast_begin s = (s\<lparr>loading := True\<rparr>)\<lparr>error := None\<rparr>"

text \<open>
  The rest of the \<^verbatim>\<open>try\<close> block: \<open>Inl\<close> is the message of the error thrown, \<open>Inr\<close>
  the data \<^verbatim>\<open>setCast\<close> receives.
\<close>

definition fetchCast_try :: "'n fetch_result \<Rightarrow> string + 'n json" where
  "fetchCast_try r =
     (case r of
        FetchRejected m \<Rightarrow> Inl m
      | FetchResolved response \<Rightarrow>
          if \<not> ok response
          then Inl (''HTTP error! status: '' @ string_of_nat (status response))
          else (case json_body response of
                  JsonRejected m \<Rightarrow> Inl m
                | JsonParsed data \<Rightarrow> Inr data))"

text \<open>
  The state updates after the answer has arrived, on the state \<open>s\<close> of that moment:
  \<^verbatim>\<open>setCast(data)\<close> or, in the \<^verbatim>\<open>catch\<close> block, \<^verbatim>\<open>setError(err.message)\<close>, and then the
  \<^verbatim>\<open>finally\<close> block. No state update lies between the two \<^verbatim>\<open>await\<close>s, so an
  invocation updates the state in two uninterrupted steps, this one and
  \<open>fetchCast_begin\<close>.
\<close>

definition fetchCast_settle :: "'n fetch_result \<Rightarrow> 'n list_cast_state \<Rightarrow> 'n list_cast_state" where
  "fetchCast_settle r s =
     (let s' = (case fetchCast_try r of
                  Inr data \<Rightarrow> s\<lparr>cast := data\<rparr>
                | Inl message \<Rightarrow> s\<lparr>error := Some message\<rparr>)
      in s'\<lparr>loading := False\<rparr>)"

text \<open>One invocation that no other state update interrupts.\<close>

definition fetchCast :: "'n fetch_result \<Rightarrow> 'n list_cast_state \<Rightarrow> 'n list_cast_state" where
  "fetchCast r s = fetchCast_settle r (fetchCast_begin s)"

text \<open>The state after each state update of one invocation, in order.\<close>

definition fetchCast_trace :: "'n fetch_result \<Rightarrow> 'n list_cast_state \<Rightarrow> 'n list_cast_state list" where
  "fetchCast_trace r s =
     (let s1 = s\<lparr>loading := True\<rparr>;
          s2 = s1\<lparr>error := None\<rparr>;
          s3 = (case fetchCast_try r of
                  Inr data \<Rightarrow> s2\<lparr>cast := data\<rparr>
                | Inl message \<Rightarrow> s2\<lparr>error := Some message\<rparr>);
          s4 = s3\<lparr>loading := False\<rparr>
      in [s1, s2, s3, s4])"

text \<open>
  Nothing in \<open>fetchCast\<close> waits for an earlier invocation, so invocations may
  overlap. A schedule lists the steps of the invocations in the order in which
  they run: \<open>Begin\<close> is the first step of an invocation, \<open>Settle r\<close> the second step
  of an invocation whose answer is \<open>r\<close>.
\<close>

datatype 'n event = Begin | Settle "'n fetch_result"

fun run_schedule :: "'n event list \<Rightarrow> 'n list_cast_state \<Rightarrow> 'n list_cast_state" where
  "run_schedule [] s = s"
| "run_schedule (Begin # es) s = run_schedule es (fetchCast_begin s)"
| "run_schedule (Settle r # es) s = run_schedule es (fetchCast_settle r s)"

subsection \<open>Rendering\<close>

text \<open>
  The callback of \<^verbatim>\<open>cast.map\<close>: one anchor with its image per member. The values of
  \<^verbatim>\<open>data-tooltip\<close> and \<^verbatim>\<open>alt\<close> are handed on as they are; the key is made a string
  when the anchor is created.
\<close>

definition cast_thumbnail :: "'n number_ops \<Rightarrow> 'n json \<Rightarrow> js_error + 'n node" where
  "cast_thumbnail ops member =
     (case get_field member ''id'' of
        Inl e \<Rightarrow> Inl e
      | Inr member_id \<Rightarrow>
     (case get_field member ''name'' of
        Inl e \<Rightarrow> Inl e
      | Inr member_name \<Rightarrow>
     (case get_field member ''slug'' of
        Inl e \<Rightarrow> Inl e
      | Inr member_slug \<Rightarrow>
     (case template_value ops member_slug of
        Inl e \<Rightarrow> Inl e
      | Inr slug \<Rightarrow>
     (case element_key ops member_id of
        Inl e \<Rightarrow> Inl e
      | Inr key \<Rightarrow>
          Inr (Elem ''a'' [(''key'', key_prop key), (''data-tooltip'', PJs member_name)]
                 [Elem ''img''
                    [(''src'', PStr (''images/'' @ slug @ ''_tn.svg'')),
                     (''alt'', PJs member_name)] []]))))))"

text \<open>The three \<^verbatim>\<open>return\<close> statements of the component.\<close>

definition loading_view :: "'n node" where
  "loading_view = Elem ''p'' [] [TextNode ''Loading cast...'']"

definition error_view :: "string option \<Rightarrow> 'n node" where
  "error_view err =
     Elem ''div'' [(''style'', PStyle [(''color'', ''red'')])]
       [Elem ''p'' []
          [TextNode ''Failed to load cast: '',
           (case err of None \<Rightarrow> Empty | Some m \<Rightarrow> TextNode m)],
        Elem ''button'' [(''onClick'', PHandler FetchCast)] [TextNode ''Retry'']]"

definition gallery_view :: "bool \<Rightarrow> 'n node list \<Rightarrow> 'n node" where
  "gallery_view busy thumbnails =
     Elem ''div'' []
       [Elem ''button''
          [(''onClick'', PHandler FetchCast), (''disabled'', PBool busy),
           (''style'', PStyle [(''marginBottom'', ''1rem'')])]
          [(if busy
            then Elem ''Spinner''
                   [(''animation'', PStr ''border''), (''size'', PStr ''sm''),
                    (''className'', PStr ''me-2'')] []
            else Empty),
           TextNode (if busy then ''Refreshing...'' else ''Refresh Cast'')],
        Elem ''div''
          [(''style'', PStyle
              [(''display'', ''grid''),
               (''gridTemplateColumns'', ''repeat(auto-fill, minmax(90px, 1fr))''),
               (''gap'', ''1rem''),
               (''marginBottom'', ''1rem'')])]
          thumbnails]"

text \<open>\<^verbatim>\<open>if (error)\<close>: \<^verbatim>\<open>null\<close> and the empty string are falsy.\<close>

definition truthy :: "string option \<Rightarrow> bool" where
  "truthy err = (case err of None \<Rightarrow> False | Some m \<Rightarrow> m \<noteq> [])"

text \<open>
  The component function. It declares no parameter, so the props it is called
  with are ignored. \<^verbatim>\<open>loading && cast.length === 0\<close> reads the length only when
  \<open>loading\<close> is true.
\<close>

definition ListCast ::
  "'n number_ops \<Rightarrow> list_cast_props \<Rightarrow> 'n list_cast_state \<Rightarrow> js_error + 'n node" where
  "ListCast ops props s =
     (case (if loading s then length_is_zero ops (cast s) else Inr False) of
        Inl e \<Rightarrow> Inl e
      | Inr True \<Rightarrow> Inr loading_view
      | Inr False \<Rightarrow>
          if truthy (error s) then Inr (error_view (error s))
          else (case js_map (cast_thumbnail ops) (cast s) of
                  Inl e \<Rightarrow> Inl e
                | Inr thumbnails \<Rightarrow> Inr (gallery_view (loading s) thumbnails)))"

subsection \<open>Cast members\<close>

text \<open>
  The values that have a string form: every value but an object with a member
  of its own named \<^verbatim>\<open>toString\<close>, and an array that holds such an object.
\<close>

fun printable :: "'n json \<Rightarrow> bool"
  and printable_list :: "'n json list \<Rightarrow> bool" where
  "printable (JObj kvs) = (own_property kvs ''toString'' = None)"
| "printable (JArr xs) = printable_list xs"
| "printable JNull = True"
| "printable (JBool b) = True"
| "printable (JNum n) = True"
| "printable (JStr s) = True"
| "printable_list [] = True"
| "printable_list (x # xs) = (printable x \<and> printable_list xs)"

text \<open>
  A well-formed element of \<^verbatim>\<open>cast.json\<close>: an object with an \<^verbatim>\<open>id\<close> that has a string
  form, a \<^verbatim>\<open>name\<close> string and a \<^verbatim>\<open>slug\<close> string.
\<close>

definition member_id :: "'n json \<Rightarrow> 'n json option" where
  "member_id m = (case m of JObj kvs \<Rightarrow> own_property kvs ''id'' | _ \<Rightarrow> None)"

definition member_name :: "'n json \<Rightarrow> string option" where
  "member_name m =
     (case m of
        JObj kvs \<Rightarrow> (case own_property kvs ''name'' of Some (JStr n) \<Rightarrow> Some n | _ \<Rightarrow> None)
      | _ \<Rightarrow> None)"

definition member_slug :: "'n json \<Rightarrow> string option" where
  "member_slug m =
     (case m of
        JObj kvs \<Rightarrow> (case own_property kvs ''slug'' of Some (JStr n) \<Rightarrow> Some n | _ \<Rightarrow> None)
      | _ \<Rightarrow> None)"

definition is_cast_member :: "'n json \<Rightarrow> bool" where
  "is_cast_member m =
     ((case member_id m of None \<Rightarrow> False | Some ident \<Rightarrow> printable ident) \<and>
      member_name m \<noteq> None \<and> member_slug m \<noteq> None)"

text \<open>The string form of a member's id.\<close>

definition member_key :: "'n number_ops \<Rightarrow> 'n json \<Rightarrow> string option" where
  "member_key ops m =
     (case member_id m of
        None \<Rightarrow> None
      | Some ident \<Rightarrow> (case js_to_string ops ident of Inl e \<Rightarrow> None | Inr k \<Rightarrow> Some k))"

text \<open>The thumbnail of a member with the given key, name and slug.\<close>

definition thumbnail_of :: "string \<Rightarrow> string \<Rightarrow> string \<Rightarrow> 'n node" where
  "thumbnail_of key name slug =
     Elem ''a'' [(''key'', PStr key), (''data-tooltip'', PJs (Some (JStr name)))]
       [Elem ''img''
          [(''src'', PStr (''images/'' @ slug @ ''_tn.svg'')),
           (''alt'', PJs (Some (JStr name)))] []]"

definition member_thumbnail :: "'n number_ops \<Rightarrow> 'n json \<Rightarrow> 'n node" where
  "member_thumbnail ops m =
     thumbnail_of
       (case member_key ops m of Some k \<Rightarrow> k | None \<Rightarrow> [])
       (case member_name m of Some n \<Rightarrow> n | None \<Rightarrow> [])
       (case member_slug m of Some sl \<Rightarrow> sl | None \<Rightarrow> [])"

text \<open>The shape of every element the callback of \<^verbatim>\<open>cast.map\<close> returns.\<close>

definition anchor_shaped :: "'n node \<Rightarrow> bool" where
  "anchor_shaped t =
     (\<exists>k n src. t = Elem ''a'' [(''key'', key_prop k), (''data-tooltip'', PJs n)]
                       [Elem ''img'' [(''src'', PStr src), (''alt'', PJs n)] []])"

text \<open>
  Number operations for JSON texts whose numbers are natural numbers, and a
  collection of two members, for the concrete instances below.
\<close>

definition nat_ops :: "nat number_ops" where
  "nat_ops = \<lparr>num_is_zero = (\<lambda>n. n = 0), num_to_string = string_of_nat\<rparr>"

definition sample_cast :: "nat json list" where
  "sample_cast =
     [JObj [(''id'', JNum 1), (''name'', JStr ''Ada''), (''slug'', JStr ''ada'')],
      JObj [(''id'', JNum 2), (''name'', JStr ''Grace''), (''slug'', JStr ''grace'')]]"

section \<open>Counter\<close>

text \<open>
  \<^verbatim>\<open>count\<close> starts at 0 and only ever grows by \<^verbatim>\<open>count + 1\<close>, so it is an integer;
  as a double it stops growing at \<open>2\<^sup>5\<^sup>3\<close>, where adding one rounds back.
\<close>

definition setCount_arg :: "nat \<Rightarrow> nat" where
  "setCount_arg count = (if count < 2 ^ 53 then count + 1 else count)"

definition Counter :: "nat \<Rightarrow> 'n node" where
  "Counter count =
     Elem ''button'' [(''onClick'', PHandler (SetCount (setCount_arg count)))]
       [TextNode ''Click Me '',
        TextNode (if count = 0 then [] else string_of_nat count @ '' times'')]"

text \<open>
  The effect that runs after every render:
  \<^verbatim>\<open>count && (document.title = `${pageTitle}--${count}`)\<close>. The result is the string
  assigned to \<^verbatim>\<open>document.title\<close>, \<open>None\<close> when nothing is assigned.
\<close>

definition Counter_effect :: "string \<Rightarrow> nat \<Rightarrow> string option" where
  "Counter_effect pageTitle count =
     (if count \<noteq> 0 then Some (pageTitle @ ''--'' @ string_of_nat count) else None)"

record page =
  pageTitle :: string
  document_title :: string
  count :: nat

text \<open>
  \<^verbatim>\<open>const pageTitle = document.title\<close> runs once, when the module is loaded; the
  component then mounts with \<^verbatim>\<open>useState(0)\<close> and its effect runs.
\<close>

definition run_effect :: "page \<Rightarrow> page" where
  "run_effect p =
     (case Counter_effect (pageTitle p) (count p) of
        None \<Rightarrow> p
      | Some t \<Rightarrow> p\<lparr>document_title := t\<rparr>)"

definition load_page :: "string \<Rightarrow> page" where
  "load_page title = run_effect \<lparr>pageTitle = title, document_title = title, count = 0\<rparr>"

text \<open>One activation: the click handler sets the count, the component renders again
  and the effect runs.\<close>

definition activate :: "page \<Rightarrow> page" where
  "activate p =
     (case click (Counter (count p) :: unit node) of
        [SetCount c] \<Rightarrow> run_effect (p\<lparr>count := c\<rparr>)
      | _ \<Rightarrow> p)"

section \<open>Properties of fetchCast\<close>

lemma string_of_nat_404: "string_of_nat 404 = ''404''"
  by (simp add: string_of_nat.simps digit_char_def)

lemma string_of_nat_1: "string_of_nat (Suc 0) = ''1''"
  by (simp add: string_of_nat.simps digit_char_def)

lemma string_of_nat_2: "string_of_nat 2 = ''2''"
  by (simp add: string_of_nat.simps digit_char_def)

lemma string_of_nat_Suc_1: "string_of_nat (Suc (Suc 0)) = ''2''"
  using string_of_nat_2 by (simp add: numeral_2_eq_2)

lemma fetchCast_try_success:
  "fetchCast_try r = Inr data \<longleftrightarrow>
     (\<exists>response. r = FetchResolved response \<and> ok response \<and>
        json_body response = JsonParsed data)"
  by (cases r) (auto simp: fetchCast_try_def split: json_result.splits)

lemma run_schedule_alone: "run_schedule [Begin, Settle r] s = fetchCast r s"
  by (simp add: fetchCast_def)

text \<open>
  C1, as stated, fails when two invocations overlap. Both begin on the initial
  state, the fetch of one is rejected and then the fetch of the other resolves
  with a body that parses. The invocation that succeeded found the collection
  empty when it began; when it has completed the collection is the fetched data
  and the error is the message of the other invocation: the error is not
  \<^verbatim>\<open>null\<close>, and the collection is not the one from before, so neither outcome holds.
\<close>

theorem overlap_outcome_counterexample:
  "cast (run_schedule [Begin] (initial_state :: nat list_cast_state)) = JArr [] \<and>
   cast (run_schedule
      [Begin, Begin, Settle (FetchRejected ''boom''),
       Settle (FetchResolved
         \<lparr>ok = True, status = 200, json_body = JsonParsed (JArr [JStr ''x''])\<rparr>)]
      (initial_state :: nat list_cast_state)) = JArr [JStr ''x''] \<and>
   error (run_schedule
      [Begin, Begin, Settle (FetchRejected ''boom''),
       Settle (FetchResolved
         \<lparr>ok = True, status = 200, json_body = JsonParsed (JArr [JStr ''x''])\<rparr>)]
      (initial_state :: nat list_cast_state)) = Some ''boom'' \<and>
   JArr [JStr ''x''] \<noteq> (JArr [] :: nat json)"
  by (simp add: initial_state_def fetchCast_begin_def fetchCast_settle_def fetchCast_try_def)

text \<open>
  C1, amended. One invocation of \<open>fetchCast\<close> that no other invocation overlaps
  (the schedule \<open>[Begin, Settle r]\<close>), on state \<open>s\<close> with the environment answering
  \<open>r\<close>. The error is \<^verbatim>\<open>null\<close> after the first two updates. The attempt yields data
  exactly when the fetch resolved with an ok response whose body parsed. When it
  yields data, the collection is that data and the error is \<^verbatim>\<open>null\<close>; when it
  throws, the error is the message thrown and the collection is the one of \<open>s\<close>.
  Exactly one of the two outcomes holds. The conjunct on \<open>fetchCast_settle\<close> is
  about the second step alone, on whatever state \<open>t\<close> the answer finds, overlap or
  not: a failed attempt writes the error and leaves the collection of \<open>t\<close>, a
  successful one writes the collection and leaves the error of \<open>t\<close>.
\<close>

theorem fetchCast_one_outcome:
  "error (fetchCast_begin s) = None \<and>
   (\<forall>data. fetchCast_try r = Inr data \<longleftrightarrow>
      (\<exists>response. r = FetchResolved response \<and> ok response \<and>
         json_body response = JsonParsed data)) \<and>
   (case fetchCast_try r of
      Inr data \<Rightarrow> cast (fetchCast r s) = data \<and> error (fetchCast r s) = None
    | Inl message \<Rightarrow>
        error (fetchCast r s) = Some message \<and> cast (fetchCast r s) = cast s) \<and>
   ((\<exists>data. fetchCast_try r = Inr data \<and> cast (fetchCast r s) = data \<and>
        error (fetchCast r s) = None)
     \<noteq> (\<exists>message. error (fetchCast r s) = Some message \<and>
           cast (fetchCast r s) = cast s)) \<and>
   (case fetchCast_try r of
      Inr data \<Rightarrow>
        cast (fetchCast_settle r t) = data \<and> error (fetchCast_settle r t) = error t
    | Inl message \<Rightarrow>
        error (fetchCast_settle r t) = Some message \<and> cast (fetchCast_settle r t) = cast t) \<and>
   run_schedule [Begin, Settle r] s = fetchCast r s"
proof -
  have "error (fetchCast_begin s) = None"
    by (simp add: fetchCast_begin_def)
  moreover have "\<forall>data. fetchCast_try r = Inr data \<longleftrightarrow>
      (\<exists>response. r = FetchResolved response \<and> ok response \<and>
         json_body response = JsonParsed data)"
    by (simp add: fetchCast_try_success)
  moreover have "(case fetchCast_try r of
      Inr data \<Rightarrow> cast (fetchCast r s) = data \<and> error (fetchCast r s) = None
    | Inl message \<Rightarrow>
        error (fetchCast r s) = Some message \<and> cast (fetchCast r s) = cast s) \<and>
   ((\<exists>data. fetchCast_try r = Inr data \<and> cast (fetchCast r s) = data \<and>
        error (fetchCast r s) = None)
     \<noteq> (\<exists>message. error (fetchCast r s) = Some message \<and>
           cast (fetchCast r s) = cast s))"
    by (cases "fetchCast_try r")
      (simp_all add: fetchCast_def fetchCast_settle_def fetchCast_begin_def)
  moreover have "(case fetchCast_try r of
      Inr data \<Rightarrow>
        cast (fetchCast_settle r t) = data \<and> error (fetchCast_settle r t) = error t
    | Inl message \<Rightarrow>
        error (fetchCast_settle r t) = Some message \<and> cast (fetchCast_settle r t) = cast t)"
    by (cases "fetchCast_try r") (simp_all add: fetchCast_settle_def)
  moreover have "run_schedule [Begin, Settle r] s = fetchCast r s"
    by (rule run_schedule_alone)
  ultimately show ?thesis by blast
qed

theorem fetchCast_one_outcome_witness:
  "cast (fetchCast
      (FetchResolved \<lparr>ok = True, status = 200, json_body = JsonParsed (JArr [JStr ''x''])\<rparr>)
      \<lparr>cast = JArr [] :: nat json, loading = False, error = Some ''old''\<rparr>) = JArr [JStr ''x''] \<and>
   error (fetchCast
      (FetchResolved \<lparr>ok = True, status = 200, json_body = JsonParsed (JArr [JStr ''x''])\<rparr>)
      \<lparr>cast = JArr [] :: nat json, loading = False, error = Some ''old''\<rparr>) = None \<and>
   error (fetchCast (FetchRejected ''Failed to fetch'')
      \<lparr>cast = JArr [JStr ''x''] :: nat json, loading = False, error = None\<rparr>)
     = Some ''Failed to fetch'' \<and>
   cast (fetchCast (FetchRejected ''Failed to fetch'')
      \<lparr>cast = JArr [JStr ''x''] :: nat json, loading = False, error = None\<rparr>)
     = JArr [JStr ''x'']"
  using fetchCast_one_outcome
          [of "\<lparr>cast = JArr [] :: nat json, loading = False, error = Some ''old''\<rparr>"
              "FetchResolved
                 \<lparr>ok = True, status = 200, json_body = JsonParsed (JArr [JStr ''x''])\<rparr>"
              "\<lparr>cast = JArr [] :: nat json, loading = True, error = None\<rparr>"]
        fetchCast_one_outcome
          [of "\<lparr>cast = JArr [JStr ''x''] :: nat json, loading = False, error = None\<rparr>"
              "FetchRejected ''Failed to fetch''"
              "\<lparr>cast = JArr [JStr ''x''] :: nat json, loading = True, error = None\<rparr>"]
  by (simp add: fetchCast_try_def)

text \<open>
  C2, as stated, fails when two invocations overlap: both have begun, the fetch
  of one is rejected, and its \<^verbatim>\<open>finally\<close> block sets the loading flag to false while
  the other invocation still awaits its answer.
\<close>

theorem overlap_loading_counterexample:
  "loading (run_schedule [Begin, Begin] (initial_state :: nat list_cast_state)) \<and>
   \<not> loading (run_schedule [Begin, Begin, Settle (FetchRejected ''boom'')]
      (initial_state :: nat list_cast_state))"
  by (simp add: initial_state_def fetchCast_begin_def fetchCast_settle_def fetchCast_try_def)

text \<open>
  C2, amended. Whatever the environment answers (a parsed body, a status that is
  not ok, a rejected fetch, a body that does not parse): the first step of an
  invocation sets the loading flag to true and its second step sets it to
  false, on whatever states \<open>t\<close> and \<open>u\<close> they run; and in an invocation that no
  other invocation overlaps the flag is true after every state update but the
  last, and the last update, which gives the state \<open>fetchCast\<close> ends in, sets it to
  false.
\<close>

theorem fetchCast_loading_flag:
  "(\<forall>t \<in> set (butlast (fetchCast_trace r s)). loading t) \<and>
   loading (fetchCast_begin s) \<and>
   last (fetchCast_trace r s) = fetchCast r s \<and>
   \<not> loading (fetchCast r s) \<and>
   loading (fetchCast_begin t) \<and>
   \<not> loading (fetchCast_settle r u) \<and>
   run_schedule [Begin, Settle r] s = fetchCast r s"
  by (cases "fetchCast_try r")
    (simp_all add: fetchCast_def fetchCast_settle_def fetchCast_begin_def fetchCast_trace_def
      Let_def)

theorem fetchCast_loading_flag_witness:
  "\<not> loading (fetchCast
      (FetchResolved \<lparr>ok = True, status = 200, json_body = JsonParsed (JArr [])\<rparr>)
      (initial_state :: nat list_cast_state)) \<and>
   \<not> loading (fetchCast
      (FetchResolved \<lparr>ok = False, status = 500, json_body = JsonParsed (JArr [])\<rparr>)
      (initial_state :: nat list_cast_state)) \<and>
   \<not> loading (fetchCast (FetchRejected ''Failed to fetch'')
      (initial_state :: nat list_cast_state)) \<and>
   \<not> loading (fetchCast
      (FetchResolved \<lparr>ok = True, status = 200, json_body = JsonRejected ''Unexpected token''\<rparr>)
      (initial_state :: nat list_cast_state)) \<and>
   list_all loading (butlast (fetchCast_trace (FetchRejected ''Failed to fetch'')
      \<lparr>cast = JArr [] :: nat json, loading = False, error = None\<rparr>))"
  using fetchCast_loading_flag
          [of "FetchResolved \<lparr>ok = True, status = 200, json_body = JsonParsed (JArr [])\<rparr>"
              "initial_state :: nat list_cast_state"
              "initial_state :: nat list_cast_state" "initial_state :: nat list_cast_state"]
        fetchCast_loading_flag
          [of "FetchResolved \<lparr>ok = False, status = 500, json_body = JsonParsed (JArr [])\<rparr>"
              "initial_state :: nat list_cast_state"
              "initial_state :: nat list_cast_state" "initial_state :: nat list_cast_state"]
        fetchCast_loading_flag
          [of "FetchRejected ''Failed to fetch''" "initial_state :: nat list_cast_state"
              "initial_state :: nat list_cast_state" "initial_state :: nat list_cast_state"]
        fetchCast_loading_flag
          [of "FetchResolved
                 \<lparr>ok = True, status = 200, json_body = JsonRejected ''Unexpected token''\<rparr>"
              "initial_state :: nat list_cast_state"
              "initial_state :: nat list_cast_state" "initial_state :: nat list_cast_state"]
        fetchCast_loading_flag
          [of "FetchRejected ''Failed to fetch''"
              "\<lparr>cast = JArr [] :: nat json, loading = False, error = None\<rparr>"
              "initial_state :: nat list_cast_state" "initial_state :: nat list_cast_state"]
  by (simp add: list_all_iff)

text \<open>
  C5. When the fetch resolves with a response that is not ok, the error becomes
  the message \<^verbatim>\<open>HTTP error! status: \<close> followed by the decimal digits of the status,
  so the message contains the status code, and the collection is left as it was.
\<close>

theorem fetchCast_http_error:
  assumes "\<not> ok response"
  shows "\<exists>message. error (fetchCast (FetchResolved response) s) = Some message \<and>
           message = ''HTTP error! status: '' @ string_of_nat (status response) \<and>
           sublist (string_of_nat (status response)) message \<and>
           cast (fetchCast (FetchResolved response) s) = cast s"
proof -
  let ?message = "''HTTP error! status: '' @ string_of_nat (status response)"
  have "fetchCast_try (FetchResolved response) = Inl ?message"
    using assms by (simp add: fetchCast_try_def)
  then have "error (fetchCast (FetchResolved response) s) = Some ?message"
    and "cast (fetchCast (FetchResolved response) s) = cast s"
    by (simp_all add: fetchCast_def fetchCast_settle_def fetchCast_begin_def)
  moreover have "sublist (string_of_nat (status response)) ?message"
    by (rule sublist_append_leftI)
  ultimately show ?thesis by blast
qed

theorem fetchCast_http_error_witness:
  "\<not> ok \<lparr>ok = False, status = 404, json_body = JsonRejected ''Unexpected token''\<rparr> \<and>
   error (fetchCast
      (FetchResolved \<lparr>ok = False, status = 404, json_body = JsonRejected ''Unexpected token''\<rparr>)
      \<lparr>cast = JArr [JStr ''x''] :: nat json, loading = False, error = None\<rparr>)
     = Some ''HTTP error! status: 404'' \<and>
   sublist ''404'' ''HTTP error! status: 404'' \<and>
   cast (fetchCast
      (FetchResolved \<lparr>ok = False, status = 404, json_body = JsonRejected ''Unexpected token''\<rparr>)
      \<lparr>cast = JArr [JStr ''x''] :: nat json, loading = False, error = None\<rparr>)
     = JArr [JStr ''x'']"
  using fetchCast_http_error
          [of "\<lparr>ok = False, status = 404, json_body = JsonRejected ''Unexpected token''\<rparr>"
              "\<lparr>cast = JArr [JStr ''x''] :: nat json, loading = False, error = None\<rparr>"]
  by (simp add: string_of_nat_404)

section \<open>Properties of rendering\<close>

subsection \<open>The callback and \<open>map_all\<close>\<close>

lemma map_all_Inr_nth:
  "map_all f xs = Inr ys \<Longrightarrow>
     length ys = length xs \<and> (\<forall>i<length xs. f (xs ! i) = Inr (ys ! i))"
proof (induction xs arbitrary: ys)
  case Nil
  then show ?case by simp
next
  case (Cons x xs)
  from Cons.prems obtain y zs where fx: "f x = Inr y" and rest: "map_all f xs = Inr zs"
    and ys: "ys = y # zs"
    by (auto split: sum.splits)
  from Cons.IH [OF rest] have len: "length zs = length xs"
    and nth: "\<forall>i<length xs. f (xs ! i) = Inr (zs ! i)" by simp_all
  show ?case
  proof (intro conjI allI impI)
    show "length ys = length (x # xs)" using ys len by simp
  next
    fix i assume "i < length (x # xs)"
    then show "f ((x # xs) ! i) = Inr (ys ! i)"
      using fx nth ys by (cases i) simp_all
  qed
qed

lemma map_all_pointwise:
  "(\<forall>x \<in> set xs. f x = Inr (g x)) \<Longrightarrow> map_all f xs = Inr (map g xs)"
  by (induction xs) simp_all

lemma printable_to_string:
  "printable v \<longrightarrow> (\<exists>k. js_to_string ops v = Inr k)"
  "printable_list xs \<longrightarrow> (\<exists>k. js_join ops xs = Inr k)"
  by (induction ops v and ops xs rule: js_to_string_js_join.induct) auto

lemma member_key_printable:
  assumes "is_cast_member m"
  shows "\<exists>ident k. member_id m = Some ident \<and> js_to_string ops ident = Inr k \<and>
           member_key ops m = Some k"
proof -
  from assms obtain ident where ident: "member_id m = Some ident" and "printable ident"
    by (auto simp: is_cast_member_def split: option.splits)
  then obtain k where "js_to_string ops ident = Inr k"
    using printable_to_string(1) [of ident ops] by blast
  with ident show ?thesis
    by (simp add: member_key_def)
qed

lemma cast_thumbnail_member:
  assumes "is_cast_member m"
  shows "cast_thumbnail ops m = Inr (member_thumbnail ops m)"
proof -
  from member_key_printable [OF assms] obtain ident k where ident: "member_id m = Some ident"
    and k: "js_to_string ops ident = Inr k" and key: "member_key ops m = Some k"
    by blast
  from ident obtain kvs where m: "m = JObj kvs"
    by (cases m) (simp_all add: member_id_def)
  from assms m obtain n where n: "own_property kvs ''name'' = Some (JStr n)"
    by (auto simp: is_cast_member_def member_name_def split: option.splits json.splits)
  from assms m obtain sl where sl: "own_property kvs ''slug'' = Some (JStr sl)"
    by (auto simp: is_cast_member_def member_slug_def split: option.splits json.splits)
  from ident m have id_field: "own_property kvs ''id'' = Some ident"
    by (simp add: member_id_def)
  show ?thesis
    using m n sl id_field k key
    by (simp add: cast_thumbnail_def template_value_def element_key_def key_prop_def
        member_thumbnail_def thumbnail_of_def member_name_def member_slug_def)
qed

lemma map_all_members:
  "list_all is_cast_member ms \<Longrightarrow>
     map_all (cast_thumbnail ops) ms = Inr (map (member_thumbnail ops) ms)"
  by (rule map_all_pointwise) (simp add: list_all_iff cast_thumbnail_member)

lemma cast_thumbnail_shape:
  assumes "cast_thumbnail ops m = Inr t"
  shows "anchor_shaped t"
  using assms by (auto simp: anchor_shaped_def cast_thumbnail_def split: sum.splits)

lemma map_all_shape:
  assumes "map_all (cast_thumbnail ops) xs = Inr ts"
  shows "\<forall>t \<in> set ts. anchor_shaped t"
proof
  fix t assume "t \<in> set ts"
  then obtain i where i: "i < length ts" and t: "t = ts ! i"
    by (auto simp: in_set_conv_nth)
  from map_all_Inr_nth [OF assms] i have "cast_thumbnail ops (xs ! i) = Inr (ts ! i)"
    by simp
  then show "anchor_shaped t" using t by (simp add: cast_thumbnail_shape)
qed

lemma sample_cast_members: "list_all is_cast_member sample_cast"
  by (simp add: sample_cast_def is_cast_member_def member_id_def member_name_def
      member_slug_def own_property_def)

lemma sample_cast_nonempty: "sample_cast \<noteq> []"
  by (simp add: sample_cast_def)

lemma sample_cast_thumbnails:
  "map (member_thumbnail nat_ops) sample_cast =
     [thumbnail_of ''1'' ''Ada'' ''ada'', thumbnail_of ''2'' ''Grace'' ''grace'']"
  by (simp add: sample_cast_def member_thumbnail_def member_key_def member_id_def
      member_name_def member_slug_def own_property_def nat_ops_def string_of_nat_1
      string_of_nat_2)

subsection \<open>The three views\<close>

lemma views_distinct:
  "loading_view \<noteq> error_view e"
  "loading_view \<noteq> gallery_view busy ts"
  "error_view e \<noteq> gallery_view busy ts"
  by (simp_all add: loading_view_def error_view_def gallery_view_def)

lemma gallery_view_inject:
  "gallery_view busy ts = gallery_view busy' ts' \<longleftrightarrow> busy = busy' \<and> ts = ts'"
  by (auto simp: gallery_view_def)

lemma loading_view_facts:
  "elements_named ''button'' (loading_view :: 'n node) = [] \<and>
   elements_named ''div'' (loading_view :: 'n node) = [] \<and>
   elements_named ''a'' (loading_view :: 'n node) = [] \<and>
   text_content (loading_view :: 'n node) = ''Loading cast...''"
  by (simp add: loading_view_def)


lemma error_view_no_grid:
  "elements_named ''a'' (error_view e :: 'n node) = [] \<and>
   elements_named ''img'' (error_view e :: 'n node) = []"
  by (cases e) (simp_all add: error_view_def)


lemma anchors_of_thumbnails:
  "(\<forall>t \<in> set ts. anchor_shaped t) \<Longrightarrow> concat (map (elements_named ''a'') ts) = ts"
  by (induction ts) (auto simp: anchor_shaped_def)

lemma anchors_of_gallery:
  "(\<forall>t \<in> set ts. anchor_shaped t) \<Longrightarrow> elements_named ''a'' (gallery_view busy ts) = ts"
  by (simp add: gallery_view_def anchors_of_thumbnails)

lemma click_anchor: "anchor_shaped t \<Longrightarrow> prop_of t ''onClick'' = None \<and> click t = []"
  by (auto simp: anchor_shaped_def click_def)

lemma click_at_thumbnail:
  assumes "i < length ts" and "anchor_shaped (ts ! i)"
  shows "last (node_path (gallery_view busy ts) [1, i]) = ts ! i \<and>
    click_at (gallery_view busy ts) [1, i] = [] \<and>
    click_at (gallery_view busy ts) [1, i, 0] = []"
  using assms
  by (auto simp: gallery_view_def click_at_def click_def anchor_shaped_def)

subsection \<open>The component function\<close>

lemma ListCast_array:
  "cast s = JArr ms \<Longrightarrow>
     ListCast ops props s =
       (if loading s \<and> ms = [] then Inr loading_view
        else if truthy (error s) then Inr (error_view (error s))
        else (case map_all (cast_thumbnail ops) ms of
                Inl e \<Rightarrow> Inl e
              | Inr ts \<Rightarrow> Inr (gallery_view (loading s) ts)))"
  by (simp add: ListCast_def)

lemma ListCast_settled:
  "\<not> loading s \<Longrightarrow>
     ListCast ops props s =
       (if truthy (error s) then Inr (error_view (error s))
        else (case js_map (cast_thumbnail ops) (cast s) of
                Inl e \<Rightarrow> Inl e
              | Inr ts \<Rightarrow> Inr (gallery_view False ts)))"
  by (simp add: ListCast_def split: sum.splits)

lemma ListCast_gallery_thumbnails:
  assumes "ListCast ops props s = Inr (gallery_view busy ts)"
  shows "\<forall>t \<in> set ts. anchor_shaped t"
proof -
  from assms have "js_map (cast_thumbnail ops) (cast s) = Inr ts"
    by (auto simp: ListCast_def views_distinct gallery_view_inject views_distinct [symmetric]
        split: sum.splits if_splits bool.splits)
  then obtain xs where "map_all (cast_thumbnail ops) xs = Inr ts"
    by (cases "cast s") simp_all
  then show ?thesis by (rule map_all_shape)
qed

text \<open>
  While an invocation of \<open>fetchCast\<close> awaits its answer, the view offers no button
  whose click runs a handler (the placeholder has none, and the refresh button is
  disabled), so invocations started from the view do not overlap.
\<close>

lemma buttons_of_thumbnails:
  "(\<forall>t \<in> set ts. anchor_shaped t) \<Longrightarrow> concat (map (elements_named ''button'') ts) = []"
  by (induction ts) (auto simp: anchor_shaped_def)

lemma no_control_while_fetching:
  assumes "cast s = JArr ms" and "list_all is_cast_member ms"
  shows "\<exists>view. ListCast ops props (fetchCast_begin s) = Inr view \<and>
           (\<forall>b \<in> set (elements_named ''button'' view). click b = [])"
proof (cases "ms = []")
  case True
  with assms have "ListCast ops props (fetchCast_begin s) = Inr loading_view"
    by (simp add: ListCast_array fetchCast_begin_def)
  then show ?thesis
    by (simp add: loading_view_facts)
next
  case False
  let ?ts = "map (member_thumbnail ops) ms"
  have shaped: "\<forall>t \<in> set ?ts. anchor_shaped t"
    using map_all_members [OF assms(2)] by (rule map_all_shape)
  from False assms have "ListCast ops props (fetchCast_begin s) = Inr (gallery_view True ?ts)"
    by (simp add: ListCast_array fetchCast_begin_def truthy_def map_all_members)
  moreover have "\<forall>b \<in> set (elements_named ''button'' (gallery_view True ?ts)). click b = []"
    using buttons_of_thumbnails [OF shaped]
    by (simp add: gallery_view_def click_def)
  ultimately show ?thesis by blast
qed

subsection \<open>Branch selection\<close>




subsection \<open>The grid\<close>

text \<open>
  C4. When the stored collection is an array of \<open>N\<close> cast members and the component
  renders the gallery (it is not loading with an empty collection, and the error
  is falsy), the anchors of the view are exactly \<open>N\<close> thumbnails, the \<open>i\<close>-th made
  from the \<open>i\<close>-th member: its key is the string form of the member's id, its
  tooltip and the alternative text of its image are the member's name, and the
  source of its image is \<^verbatim>\<open>images/\<close>, the member's slug and \<^verbatim>\<open>_tn.svg\<close>.
\<close>

theorem ListCast_grid:
  assumes "cast s = JArr ms" and "list_all is_cast_member ms"
    and "\<not> (loading s \<and> ms = [])" and "\<not> truthy (error s)"
  shows "ListCast ops props s
      = Inr (gallery_view (loading s) (map (member_thumbnail ops) ms)) \<and>
    elements_named ''a'' (gallery_view (loading s) (map (member_thumbnail ops) ms))
      = map (member_thumbnail ops) ms \<and>
    length (map (member_thumbnail ops) ms) = length ms \<and>
    (\<forall>i<length ms. \<exists>ident key name slug.
       member_id (ms ! i) = Some ident \<and> js_to_string ops ident = Inr key \<and>
       member_name (ms ! i) = Some name \<and> member_slug (ms ! i) = Some slug \<and>
       map (member_thumbnail ops) ms ! i =
         Elem ''a''
           [(''key'', PStr key), (''data-tooltip'', PJs (Some (JStr name)))]
           [Elem ''img''
              [(''src'', PStr (''images/'' @ slug @ ''_tn.svg'')),
               (''alt'', PJs (Some (JStr name)))] []])"
proof -
  let ?thumbnails = "map (member_thumbnail ops) ms"
  have all: "map_all (cast_thumbnail ops) ms = Inr ?thumbnails"
    using assms(2) by (rule map_all_members)
  have render: "ListCast ops props s = Inr (gallery_view (loading s) ?thumbnails)"
    using assms(1,3,4) all by (auto simp: ListCast_array)
  have anchors: "elements_named ''a'' (gallery_view (loading s) ?thumbnails) = ?thumbnails"
    using map_all_shape [OF all] by (rule anchors_of_gallery)
  have each: "\<exists>ident key name slug.
       member_id (ms ! i) = Some ident \<and> js_to_string ops ident = Inr key \<and>
       member_name (ms ! i) = Some name \<and> member_slug (ms ! i) = Some slug \<and>
       ?thumbnails ! i =
         Elem ''a''
           [(''key'', PStr key), (''data-tooltip'', PJs (Some (JStr name)))]
           [Elem ''img''
              [(''src'', PStr (''images/'' @ slug @ ''_tn.svg'')),
               (''alt'', PJs (Some (JStr name)))] []]" if "i < length ms" for i
  proof -
    from that assms(2) have member: "is_cast_member (ms ! i)"
      by (simp add: list_all_length)
    then obtain name slug where "member_name (ms ! i) = Some name"
      and "member_slug (ms ! i) = Some slug"
      by (auto simp: is_cast_member_def)
    moreover from member_key_printable [OF member] obtain ident key
      where "member_id (ms ! i) = Some ident" and "js_to_string ops ident = Inr key"
        and "member_key ops (ms ! i) = Some key"
      by blast
    ultimately show ?thesis
      using that by (simp add: member_thumbnail_def thumbnail_of_def)
  qed
  show ?thesis
    using render anchors each by simp
qed

theorem ListCast_grid_witness:
  "list_all is_cast_member sample_cast \<and>
   ListCast nat_ops \<lparr>onChoice = None\<rparr> \<lparr>cast = JArr sample_cast, loading = False, error = None\<rparr>
     = Inr (gallery_view False
         [thumbnail_of ''1'' ''Ada'' ''ada'', thumbnail_of ''2'' ''Grace'' ''grace'']) \<and>
   elements_named ''a'' (gallery_view False
         [thumbnail_of ''1'' ''Ada'' ''ada'' :: nat node, thumbnail_of ''2'' ''Grace'' ''grace''])
     = [thumbnail_of ''1'' ''Ada'' ''ada'', thumbnail_of ''2'' ''Grace'' ''grace'']"
  using ListCast_grid
     [of "\<lparr>cast = JArr sample_cast, loading = False, error = None\<rparr>"
         sample_cast nat_ops "\<lparr>onChoice = None\<rparr>"]
  by (simp add: sample_cast_members sample_cast_thumbnails truthy_def)

subsection \<open>An error hides the stored collection\<close>

text \<open>
  C9, as stated, fails when the error that is set is the empty message: with a
  non-empty collection stored, the component renders the grid of that collection
  and no error.
\<close>

theorem stale_grid_counterexample:
  "error \<lparr>cast = JArr sample_cast, loading = False, error = Some []\<rparr> = Some [] \<and>
   sample_cast \<noteq> [] \<and>
   ListCast nat_ops \<lparr>onChoice = None\<rparr>
     \<lparr>cast = JArr sample_cast, loading = False, error = Some []\<rparr>
     = Inr (gallery_view False
         [thumbnail_of ''1'' ''Ada'' ''ada'', thumbnail_of ''2'' ''Grace'' ''grace'']) \<and>
   ListCast nat_ops \<lparr>onChoice = None\<rparr>
     \<lparr>cast = JArr sample_cast, loading = False, error = Some []\<rparr>
     \<noteq> Inr (error_view (Some []))"
  by (simp add: sample_cast_nonempty ListCast_array truthy_def map_all_members
      sample_cast_members sample_cast_thumbnails views_distinct [symmetric])

text \<open>
  C9, amended. In every state that stores a non-empty array and whose error is a
  non-empty message, the component returns the error view, which holds no anchor
  and no image, whatever the loading flag is. In particular, when an invocation
  of \<open>fetchCast\<close> on a state storing a non-empty array fails with a non-empty
  message, the array is still stored afterwards and the component returns the
  error view.
\<close>

theorem error_branch_hides_grid:
  assumes "cast s = JArr ms" and "ms \<noteq> []"
  shows "(error s = Some m \<and> m \<noteq> [] \<longrightarrow>
       ListCast ops props s = Inr (error_view (Some m)) \<and>
       elements_named ''a'' (error_view (Some m) :: 'n node) = [] \<and>
       elements_named ''img'' (error_view (Some m) :: 'n node) = []) \<and>
    (fetchCast_try r = Inl message \<and> message \<noteq> [] \<longrightarrow>
       cast (fetchCast r s) = JArr ms \<and>
       ListCast ops props (fetchCast r s) = Inr (error_view (Some message)))"
proof (intro conjI impI)
  assume m: "error s = Some m \<and> m \<noteq> []"
  then show "ListCast ops props s = Inr (error_view (Some m))"
    using assms by (simp add: ListCast_array truthy_def)
  show "elements_named ''a'' (error_view (Some m) :: 'n node) = []"
    and "elements_named ''img'' (error_view (Some m) :: 'n node) = []"
    by (simp_all add: error_view_no_grid)
next
  assume r: "fetchCast_try r = Inl message \<and> message \<noteq> []"
  then show "cast (fetchCast r s) = JArr ms"
    using assms by (simp add: fetchCast_def fetchCast_settle_def fetchCast_begin_def)
  from r have "\<not> loading (fetchCast r s)" and "error (fetchCast r s) = Some message"
    by (simp_all add: fetchCast_def fetchCast_settle_def fetchCast_begin_def)
  with r show "ListCast ops props (fetchCast r s) = Inr (error_view (Some message))"
    by (simp add: ListCast_settled truthy_def)
qed

theorem error_branch_hides_grid_witness:
  "sample_cast \<noteq> [] \<and>
   ListCast nat_ops \<lparr>onChoice = None\<rparr>
     \<lparr>cast = JArr sample_cast, loading = True, error = Some ''HTTP error! status: 404''\<rparr>
     = Inr (error_view (Some ''HTTP error! status: 404'')) \<and>
   cast (fetchCast (FetchRejected ''Failed to fetch'')
     \<lparr>cast = JArr sample_cast, loading = True, error = Some ''HTTP error! status: 404''\<rparr>)
     = JArr sample_cast \<and>
   ListCast nat_ops \<lparr>onChoice = None\<rparr>
     (fetchCast (FetchRejected ''Failed to fetch'')
        \<lparr>cast = JArr sample_cast, loading = True, error = Some ''HTTP error! status: 404''\<rparr>)
     = Inr (error_view (Some ''Failed to fetch''))"
  using error_branch_hides_grid
     [of "\<lparr>cast = JArr sample_cast, loading = True, error = Some ''HTTP error! status: 404''\<rparr>"
         sample_cast "''HTTP error! status: 404''" nat_ops "\<lparr>onChoice = None\<rparr>"
         "FetchRejected ''Failed to fetch''" "''Failed to fetch''"]
  by (auto simp: sample_cast_nonempty fetchCast_try_def)

subsection \<open>No validation of the parsed body\<close>

text \<open>
  C10. When the fetch resolves with an ok response whose body parses, whatever
  JSON value the body parses to is stored as the collection and the error is
  \<^verbatim>\<open>null\<close>. The render that follows calls \<^verbatim>\<open>map\<close> on the stored value: it returns the
  gallery view of the mapped elements when the call succeeds, and it throws a
  \<^verbatim>\<open>TypeError\<close> when the value is not an array.
\<close>

theorem fetchCast_no_validation:
  assumes "ok response" and "json_body response = JsonParsed data"
  shows "cast (fetchCast (FetchResolved response) s) = data \<and>
    error (fetchCast (FetchResolved response) s) = None \<and>
    ListCast ops props (fetchCast (FetchResolved response) s) =
      (case js_map (cast_thumbnail ops) data of
         Inl e \<Rightarrow> Inl e
       | Inr thumbnails \<Rightarrow> Inr (gallery_view False thumbnails)) \<and>
    ((\<forall>xs. data \<noteq> JArr xs) \<longrightarrow>
       ListCast ops props (fetchCast (FetchResolved response) s) = Inl TypeError)"
proof -
  let ?s' = "fetchCast (FetchResolved response) s"
  have attempt: "fetchCast_try (FetchResolved response) = Inr data"
    using assms by (simp add: fetchCast_try_def)
  from attempt have stored: "cast ?s' = data" and no_error: "error ?s' = None"
    and settled: "\<not> loading ?s'"
    by (simp_all add: fetchCast_def fetchCast_settle_def fetchCast_begin_def)
  have render: "ListCast ops props ?s' =
      (case js_map (cast_thumbnail ops) data of
         Inl e \<Rightarrow> Inl e
       | Inr thumbnails \<Rightarrow> Inr (gallery_view False thumbnails))"
    using stored no_error settled by (simp add: ListCast_settled truthy_def)
  have "ListCast ops props ?s' = Inl TypeError" if "\<forall>xs. data \<noteq> JArr xs"
    using that render by (cases data) simp_all
  with stored no_error render show ?thesis by blast
qed

theorem fetchCast_no_validation_witness:
  "cast (fetchCast
     (FetchResolved \<lparr>ok = True, status = 200, json_body = JsonParsed (JObj [(''cast'', JArr [])])\<rparr>)
     (initial_state :: nat list_cast_state)) = JObj [(''cast'', JArr [])] \<and>
   error (fetchCast
     (FetchResolved \<lparr>ok = True, status = 200, json_body = JsonParsed (JObj [(''cast'', JArr [])])\<rparr>)
     (initial_state :: nat list_cast_state)) = None \<and>
   ListCast nat_ops \<lparr>onChoice = None\<rparr> (fetchCast
     (FetchResolved \<lparr>ok = True, status = 200, json_body = JsonParsed (JObj [(''cast'', JArr [])])\<rparr>)
     initial_state) = Inl TypeError \<and>
   cast (fetchCast
     (FetchResolved \<lparr>ok = True, status = 200, json_body = JsonParsed (JNum 7)\<rparr>)
     (initial_state :: nat list_cast_state)) = JNum 7 \<and>
   ListCast nat_ops \<lparr>onChoice = None\<rparr> (fetchCast
     (FetchResolved \<lparr>ok = True, status = 200, json_body = JsonParsed (JNum 7)\<rparr>)
     initial_state) = Inl TypeError"
  using fetchCast_no_validation
     [of "\<lparr>ok = True, status = 200, json_body = JsonParsed (JObj [(''cast'', JArr [])])\<rparr>"
         "JObj [(''cast'', JArr [])]" "initial_state :: nat list_cast_state" nat_ops
         "\<lparr>onChoice = None\<rparr>"]
    fetchCast_no_validation
     [of "\<lparr>ok = True, status = 200, json_body = JsonParsed (JNum 7)\<rparr>"
         "JNum 7" "initial_state :: nat list_cast_state" nat_ops "\<lparr>onChoice = None\<rparr>"]
  by simp

subsection \<open>Clicking a thumbnail\<close>

text \<open>
  C6, as stated, fails: with the \<^verbatim>\<open>onChoice\<close> callback supplied and one member
  loaded, a click on the member's anchor, or on the image inside it, runs no
  handler at all, so the callback is not invoked.
\<close>

theorem thumbnail_click_counterexample:
  "onChoice \<lparr>onChoice = Some SetMemberInfo\<rparr> = Some SetMemberInfo \<and>
   ListCast nat_ops \<lparr>onChoice = Some SetMemberInfo\<rparr>
     \<lparr>cast = JArr [JObj [(''id'', JNum 1), (''name'', JStr ''Ada''), (''slug'', JStr ''ada'')]],
      loading = False, error = None\<rparr>
     = Inr (gallery_view False [thumbnail_of ''1'' ''Ada'' ''ada'']) \<and>
   click_at (gallery_view False [thumbnail_of ''1'' ''Ada'' ''ada'' :: nat node]) [1, 0]
     = [] \<and>
   click_at (gallery_view False [thumbnail_of ''1'' ''Ada'' ''ada'' :: nat node]) [1, 0, 0]
     = []"
  by (simp add: ListCast_def truthy_def cast_thumbnail_def template_value_def element_key_def
      key_prop_def nat_ops_def string_of_nat_1 own_property_def thumbnail_of_def
      gallery_view_def click_at_def click_def)

text \<open>
  C6, amended. The component ignores the props it is given: it renders the same
  with and without an \<^verbatim>\<open>onChoice\<close> callback. Whenever it renders the gallery, the
  anchors of the view are the thumbnails, no thumbnail has an \<^verbatim>\<open>onClick\<close> prop, and
  a click on a thumbnail or on its image runs no handler on its way up to the
  root: activating a thumbnail invokes nothing.
\<close>

theorem thumbnail_click_invokes_nothing:
  assumes "ListCast ops props s = Inr (gallery_view busy thumbnails)"
    and "i < length thumbnails"
  shows "ListCast ops \<lparr>onChoice = callback\<rparr> s = ListCast ops props s \<and>
    elements_named ''a'' (gallery_view busy thumbnails) = thumbnails \<and>
    last (node_path (gallery_view busy thumbnails) [1, i]) = thumbnails ! i \<and>
    prop_of (thumbnails ! i) ''onClick'' = None \<and>
    click_at (gallery_view busy thumbnails) [1, i] = [] \<and>
    click_at (gallery_view busy thumbnails) [1, i, 0] = []"
proof -
  have shaped: "\<forall>t \<in> set thumbnails. anchor_shaped t"
    using assms(1) by (rule ListCast_gallery_thumbnails)
  then have this_one: "anchor_shaped (thumbnails ! i)"
    using assms(2) by simp
  have "ListCast ops \<lparr>onChoice = callback\<rparr> s = ListCast ops props s"
    by (simp add: ListCast_def)
  moreover have "elements_named ''a'' (gallery_view busy thumbnails) = thumbnails"
    using shaped by (rule anchors_of_gallery)
  moreover have "prop_of (thumbnails ! i) ''onClick'' = None"
    using this_one by (simp add: click_anchor)
  ultimately show ?thesis
    using click_at_thumbnail [OF assms(2) this_one, of busy] by simp
qed

theorem thumbnail_click_invokes_nothing_witness:
  "ListCast nat_ops \<lparr>onChoice = Some SetMemberInfo\<rparr>
     \<lparr>cast = JArr sample_cast, loading = False, error = None\<rparr>
     = Inr (gallery_view False
         [thumbnail_of ''1'' ''Ada'' ''ada'', thumbnail_of ''2'' ''Grace'' ''grace'']) \<and>
   click_at (gallery_view False
         [thumbnail_of ''1'' ''Ada'' ''ada'' :: nat node, thumbnail_of ''2'' ''Grace'' ''grace'']) [1, 1] = [] \<and>
   click_at (gallery_view False
         [thumbnail_of ''1'' ''Ada'' ''ada'' :: nat node, thumbnail_of ''2'' ''Grace'' ''grace'']) [1, 1, 0] = []"
proof -
  have render: "ListCast nat_ops \<lparr>onChoice = Some SetMemberInfo\<rparr>
     \<lparr>cast = JArr sample_cast, loading = False, error = None\<rparr>
     = Inr (gallery_view False
         [thumbnail_of ''1'' ''Ada'' ''ada'', thumbnail_of ''2'' ''Grace'' ''grace''])"
    by (simp add: ListCast_array truthy_def map_all_members sample_cast_members
        sample_cast_thumbnails sample_cast_nonempty)
  show ?thesis
    using render thumbnail_click_invokes_nothing [OF render, of 1 None] by simp
qed

section \<open>Properties of Counter\<close>

lemma activate_eq: "activate p = run_effect (p\<lparr>count := setCount_arg (count p)\<rparr>)"
  by (simp add: activate_def Counter_def click_def)

lemma load_page_eq:
  "load_page title = \<lparr>pageTitle = title, document_title = title, count = 0\<rparr>"
  by (simp add: load_page_def run_effect_def Counter_effect_def)

lemma first_activation:
  "activate (load_page title) =
     \<lparr>pageTitle = title, document_title = title @ ''--1'', count = 1\<rparr>"
  by (simp add: activate_eq load_page_eq run_effect_def Counter_effect_def setCount_arg_def
      string_of_nat_1)

lemma second_activation:
  "activate (activate (load_page title)) =
     \<lparr>pageTitle = title, document_title = title @ ''--2'', count = 2\<rparr>"
  unfolding first_activation
  by (simp add: activate_eq run_effect_def Counter_effect_def setCount_arg_def
      string_of_nat_Suc_1)

text \<open>
  C7. After a render with a count that is not zero, the effect assigns to the
  document title the title captured when the module was loaded, followed by
  \<^verbatim>\<open>--\<close> and the decimal count; after a render with count zero it assigns nothing
  and the page is unchanged. The captured title never changes. Starting from a
  page loaded with title \<open>title\<close>, the document title is \<open>title\<close>, after the first
  activation \<open>title--1\<close> and after the second \<open>title--2\<close>.
\<close>

theorem Counter_title:
  "(count p \<noteq> 0 \<longrightarrow>
      Counter_effect (pageTitle p) (count p)
        = Some (pageTitle p @ ''--'' @ string_of_nat (count p)) \<and>
      document_title (run_effect p) = pageTitle p @ ''--'' @ string_of_nat (count p)) \<and>
   (count p = 0 \<longrightarrow> Counter_effect (pageTitle p) (count p) = None \<and> run_effect p = p) \<and>
   pageTitle (run_effect p) = pageTitle p \<and>
   pageTitle (activate p) = pageTitle p \<and>
   pageTitle (load_page title) = title \<and>
   document_title (load_page title) = title \<and>
   document_title (activate (load_page title)) = title @ ''--1'' \<and>
   document_title (activate (activate (load_page title))) = title @ ''--2''"
proof -
  have effect: "(count p \<noteq> 0 \<longrightarrow>
      Counter_effect (pageTitle p) (count p)
        = Some (pageTitle p @ ''--'' @ string_of_nat (count p)) \<and>
      document_title (run_effect p) = pageTitle p @ ''--'' @ string_of_nat (count p)) \<and>
   (count p = 0 \<longrightarrow> Counter_effect (pageTitle p) (count p) = None \<and> run_effect p = p)"
    by (simp add: run_effect_def Counter_effect_def)
  have baseline: "pageTitle (run_effect q) = pageTitle q" for q
    by (simp add: run_effect_def split: option.splits)
  have baseline': "pageTitle (activate p) = pageTitle p"
    by (simp add: activate_eq baseline)
  have loaded: "pageTitle (load_page title) = title \<and> document_title (load_page title) = title"
    by (simp add: load_page_eq)
  have first: "document_title (activate (load_page title)) = title @ ''--1''"
    by (simp add: first_activation)
  have second: "document_title (activate (activate (load_page title))) = title @ ''--2''"
    by (simp add: second_activation)
  from effect baseline [of p] baseline' loaded first second show ?thesis
    by blast
qed

theorem Counter_title_witness:
  "document_title (run_effect \<lparr>pageTitle = ''React App'', document_title = ''React App'', count = 2\<rparr>)
     = ''React App--2'' \<and>
   run_effect \<lparr>pageTitle = ''React App'', document_title = ''Other'', count = 0\<rparr>
     = \<lparr>pageTitle = ''React App'', document_title = ''Other'', count = 0\<rparr> \<and>
   document_title (activate (load_page ''React App'')) = ''React App--1'' \<and>
   document_title (activate (activate (load_page ''React App''))) = ''React App--2''"
  using Counter_title
     [of "\<lparr>pageTitle = ''React App'', document_title = ''React App'', count = 2\<rparr>" "''React App''"]
    Counter_title
     [of "\<lparr>pageTitle = ''React App'', document_title = ''Other'', count = 0\<rparr>" "''React App''"]
  by (simp add: string_of_nat_2)

text \<open>
  C8. The text of the button is \<^verbatim>\<open>Click Me \<close> followed by a suffix: the suffix is empty
  when the count is zero, so the text is then \<^verbatim>\<open>Click Me \<close> with no number, and it
  is the decimal count followed by \<^verbatim>\<open> times\<close> otherwise. One activation from zero
  makes the count 1 and the suffix \<^verbatim>\<open>1 times\<close>, a second one \<^verbatim>\<open>2 times\<close>.
\<close>

theorem Counter_text:
  "text_content (Counter c :: 'n node) =
     ''Click Me '' @ (if c = 0 then [] else string_of_nat c @ '' times'') \<and>
   text_content (Counter 0 :: 'n node) = ''Click Me '' \<and>
   count (load_page title) = 0 \<and>
   count (activate (load_page title)) = 1 \<and>
   text_content (Counter (count (activate (load_page title))) :: 'n node)
     = ''Click Me '' @ ''1 times'' \<and>
   text_content (Counter (count (activate (activate (load_page title)))) :: 'n node)
     = ''Click Me '' @ ''2 times''"
proof -
  have general: "text_content (Counter c :: 'n node) =
     ''Click Me '' @ (if c = 0 then [] else string_of_nat c @ '' times'')" for c
    by (simp add: Counter_def)
  have zero: "text_content (Counter 0 :: 'n node) = ''Click Me ''"
    by (simp add: Counter_def)
  have start: "count (load_page title) = 0"
    by (simp add: load_page_eq)
  have one: "count (activate (load_page title)) = 1"
    by (simp add: first_activation)
  have two: "count (activate (activate (load_page title))) = 2"
    by (simp add: second_activation)
  have text1: "text_content (Counter (count (activate (load_page title))) :: 'n node)
     = ''Click Me '' @ ''1 times''"
    unfolding one by (simp add: Counter_def string_of_nat_1)
  have text2: "text_content (Counter (count (activate (activate (load_page title)))) :: 'n node)
     = ''Click Me '' @ ''2 times''"
    unfolding two by (simp add: Counter_def string_of_nat_2)
  from general [of c] zero start one text1 text2 show ?thesis
    by blast
qed

theorem Counter_text_witness:
  "text_content (Counter 0 :: nat node) = ''Click Me '' \<and>
   text_content (Counter 1 :: nat node) = ''Click Me 1 times'' \<and>
   text_content (Counter 404 :: nat node) = ''Click Me 404 times''"
  using Counter_text [of 0 "''React App''", where ?'n = nat]
    Counter_text [of 1 "''React App''", where ?'n = nat]
    Counter_text [of 404 "''React App''", where ?'n = nat]
  by (simp add: string_of_nat_1 string_of_nat_404)

end
